theory Spec2Isabelle
  imports Complex_Main
begin

section \<open>Data model of \<open>Chatbot.py\<close>\<close>

text \<open>
  The embedding covers the class \<open>ChatbotApp\<close>: its fields that carry state
  (\<open>chat_history_ids\<close>, \<open>max_history_length\<close>, the entry widget \<open>user_input\<close> and the text
  widget \<open>chat_display\<close>) and the methods \<open>send_message\<close> and \<open>update_chat\<close>.

  Exceptions are values. \<open>KeyError k\<close> is what a dictionary lookup raises on the
  missing key \<open>k\<close>, as the one in \<open>update_chat\<close> does. \<open>External d\<close> stands for any other
  instance of \<open>Exception\<close> raised inside the tokenizer or the model, \<open>d\<close> being what
  \<open>str(e)\<close> returns for it. \<open>Interrupt d\<close> stands for an exception that is not an instance
  of \<open>Exception\<close> (\<open>KeyboardInterrupt\<close>, \<open>SystemExit\<close>, \<open>GeneratorExit\<close>): the clause
  \<open>except Exception\<close> of line 179 does not catch it.
\<close>

datatype error = KeyError string | External string | Interrupt string

fun is_Exception :: "error \<Rightarrow> bool" where
  "is_Exception (KeyError k) = True"
| "is_Exception (External d) = True"
| "is_Exception (Interrupt d) = False"

text \<open>
  \<open>repr\<close> of a string whose code points are below 256. The quote is the single quote,
  unless the string holds a single quote and no double quote. The quote in use and the
  backslash are escaped with a backslash; tab, line feed and carriage return are written
  \<open>\t\<close>, \<open>\n\<close>, \<open>\r\<close>; any other code point that is not printable is written \<open>\xhh\<close>
  with two lower-case hexadecimal digits. Below 256 the printable code points are 32 to
  126 and 161 to 255 without 173.
\<close>

definition hex_digit :: "nat \<Rightarrow> char" where
  "hex_digit n = char_of (if n < 10 then 48 + n else 87 + n)"

definition is_printable :: "char \<Rightarrow> bool" where
  "is_printable c =
     (let n = (of_char c :: nat) in (32 \<le> n \<and> n < 127) \<or> (161 \<le> n \<and> n \<noteq> 173))"

definition repr_char :: "char \<Rightarrow> char \<Rightarrow> string" where
  "repr_char quote c =
     (if c = quote \<or> c = CHR 0x5C then [CHR 0x5C, c]
      else if c = CHR 0x09 then [CHR 0x5C, CHR ''t'']
      else if c = CHR 0x0A then [CHR 0x5C, CHR ''n'']
      else if c = CHR 0x0D then [CHR 0x5C, CHR ''r'']
      else if is_printable c then [c]
      else [CHR 0x5C, CHR ''x'',
            hex_digit ((of_char c :: nat) div 16), hex_digit ((of_char c :: nat) mod 16)])"

definition py_repr :: "string \<Rightarrow> string" where
  "py_repr s =
     (let quote = (if CHR 0x27 \<in> set s \<and> CHR 0x22 \<notin> set s then CHR 0x22 else CHR 0x27)
      in [quote] @ concat (map (repr_char quote) s) @ [quote])"

text \<open>\<open>str(e)\<close>: for a \<open>KeyError\<close> it is the \<open>repr\<close> of the key.\<close>

fun str_error :: "error \<Rightarrow> string" where
  "str_error (KeyError k) = py_repr k"
| "str_error (External d) = d"
| "str_error (Interrupt d) = d"

text \<open>
  Every tensor of the program has shape \<open>(1, n)\<close>: \<open>encode\<close> is called on one string with
  \<open>return_tensors="pt"\<close>, \<open>torch.cat\<close> joins along the last axis and \<open>generate\<close> answers a
  batch of one with a batch of one. A tensor is therefore modelled as its single row of
  token ids, and \<open>shape[-1]\<close> as the length of that row.
\<close>

type_synonym tensor = "int list"

text \<open>
  The keyword arguments of \<open>self.model.generate\<close> (lines 157 to 160). The two decimal
  literals are passed through unchanged; no arithmetic is done on them.
\<close>

record gen_kwargs =
  max_length :: int
  pad_token_id :: int
  temperature :: real
  repetition_penalty :: real

text \<open>
  The tokenizer and the model are external objects held in \<open>self.tokenizer\<close> and
  \<open>self.model\<close>. Each of their methods may raise, so each returns a sum.
\<close>

record backend =
  encode :: "string \<Rightarrow> error + tensor"
  eos_token :: string
  eos_token_id :: int
  generate :: "tensor \<Rightarrow> gen_kwargs \<Rightarrow> error + tensor"
  decode :: "tensor \<Rightarrow> bool \<Rightarrow> error + string"

text \<open>
  The text widget: the segments inserted so far, each with its tag, and the widget's
  \<open>state\<close> option. Tag colours and scrolling do not change the text shown and are left out.
\<close>

record display =
  inserted :: "(string \<times> string) list"
  widget_state :: string

text \<open>The fields of the application object that carry state.\<close>

record app =
  user_input :: string
  chat_display :: display
  chat_history_ids :: "tensor option"
  max_history_length :: int

section \<open>Python primitives\<close>

text \<open>
  \<open>str.strip()\<close>: removes leading and trailing whitespace. A \<open>char\<close> is one of the code
  points 0 to 255; these are the whitespace code points of Python in that range.
\<close>

definition is_space :: "char \<Rightarrow> bool" where
  "is_space c = ((of_char c :: nat) \<in> {9, 10, 11, 12, 13, 28, 29, 30, 31, 32, 133, 160})"

definition strip :: "string \<Rightarrow> string" where
  "strip s = rev (dropWhile is_space (rev (dropWhile is_space s)))"

text \<open>
  The slice \<open>xs[s:]\<close> along the last axis: a negative start counts from the end, and a
  start outside the sequence is clamped, as Python and PyTorch do.
\<close>

definition slice_from :: "int \<Rightarrow> 'a list \<Rightarrow> 'a list" where
  "slice_from s xs =
     (let n = int (length xs);
          start = (if s < 0 then max (n + s) 0 else min s n)
      in drop (nat start) xs)"

definition newlines :: string where
  "newlines = [CHR 0x0A, CHR 0x0A]"

section \<open>\<open>update_chat\<close>\<close>

definition tags :: "(string \<times> (string \<times> string)) list" where
  "tags = [(''You'', (''you'', ''#2c3e50'')),
           (''AI'', (''ai'', ''#2980b9'')),
           (''System'', (''sys'', ''#e74c3c''))]"

text \<open>
  Lines 182 to 211. The widget is made editable first; \<open>tags[sender]\<close> is evaluated as an
  argument of the first \<open>insert\<close>, so a missing key raises before that call happens and
  leaves the widget editable with nothing inserted. The error case carries the state
  reached when the exception was raised.
\<close>

definition update_chat :: "string \<Rightarrow> string \<Rightarrow> app \<Rightarrow> (error \<times> app) + app" where
  "update_chat sender message st =
     (let d1 = (chat_display st)\<lparr>widget_state := ''normal''\<rparr>
      in case map_of tags sender of
           None \<Rightarrow> Inl (KeyError sender, st\<lparr>chat_display := d1\<rparr>)
         | Some (tag, colour) \<Rightarrow>
             Inr (st\<lparr>chat_display :=
                    d1\<lparr>inserted := inserted d1 @ [(sender @ '': '', tag), (message @ newlines, ''msg'')],
                       widget_state := ''disabled''\<rparr>\<rparr>))"

section \<open>\<open>send_message\<close>\<close>

text \<open>Lines 149 to 152: the generation input.\<close>

definition input_ids_of :: "tensor option \<Rightarrow> tensor \<Rightarrow> tensor" where
  "input_ids_of history new_input =
     (case history of Some h \<Rightarrow> h @ new_input | None \<Rightarrow> new_input)"

text \<open>Lines 157 to 160: the keyword arguments of the call.\<close>

definition generate_kwargs :: "backend \<Rightarrow> app \<Rightarrow> gen_kwargs" where
  "generate_kwargs be st =
     \<lparr>max_length = max_history_length st, pad_token_id = eos_token_id be,
      temperature = 7 / 10, repetition_penalty = 12 / 10\<rparr>"

text \<open>
  Lines 174 and 175: the history length limit. In Python the unary minus binds tighter
  than \<open>//\<close>, so the start of the slice is \<open>(-max_history_length) // 2\<close>, a floor
  division, which is what \<open>div\<close> on \<open>int\<close> computes.
\<close>

definition enforce_budget :: "int \<Rightarrow> tensor \<Rightarrow> tensor" where
  "enforce_budget max_len ids =
     (if int (length ids) > max_len then slice_from ((- max_len) div 2) ids else ids)"

text \<open>
  Lines 143 to 177, the body of the \<open>try\<close>. An exception leaves the block with the state
  reached so far: the history is assigned only after \<open>decode\<close> has returned.
\<close>

definition try_block :: "backend \<Rightarrow> string \<Rightarrow> app \<Rightarrow> (error \<times> app) + app" where
  "try_block be user_msg st =
     (case encode be (user_msg @ eos_token be) of
        Inl e \<Rightarrow> Inl (e, st)
      | Inr new_input \<Rightarrow>
          let input_ids = input_ids_of (chat_history_ids st) new_input
          in case generate be input_ids (generate_kwargs be st) of
               Inl e \<Rightarrow> Inl (e, st)
             | Inr response \<Rightarrow>
                 let response_start = int (length input_ids)
                 in case decode be (slice_from response_start response) True of
                      Inl e \<Rightarrow> Inl (e, st)
                    | Inr bot_response \<Rightarrow>
                        let st1 = st\<lparr>chat_history_ids := Some response\<rparr>;
                            st2 = st1\<lparr>chat_history_ids :=
                                    Some (enforce_budget (max_history_length st1) response)\<rparr>
                        in update_chat ''AI'' bot_response st2)"

text \<open>
  Lines 131 to 180. A blank message returns at once. Otherwise the entry is cleared and
  the message is echoed before the \<open>try\<close>. The handler of line 179 catches the instances
  of \<open>Exception\<close> raised in the block and reports them under the label \<open>System\<close>; any
  other exception passes through it. A result \<open>Inl\<close> is an exception that leaves
  \<open>send_message\<close>, with the state reached when it was raised.
\<close>

definition send_message :: "backend \<Rightarrow> app \<Rightarrow> (error \<times> app) + app" where
  "send_message be st =
     (let user_msg = strip (user_input st)
      in if user_msg = [] then Inr st
         else case update_chat ''You'' user_msg (st\<lparr>user_input := []\<rparr>) of
                Inl (e, st1) \<Rightarrow> Inl (e, st1)
              | Inr st1 \<Rightarrow>
                  (case try_block be user_msg st1 of
                     Inr st2 \<Rightarrow> Inr st2
                   | Inl (e, st2) \<Rightarrow>
                       if is_Exception e
                       then update_chat ''System'' (''Error: '' @ str_error e) st2
                       else Inl (e, st2)))"

section \<open>Sessions\<close>

text \<open>
  Lines 69, 70 and 129: the fields after \<open>__init__\<close>. The display is created disabled and
  empty, and \<open>setup_ui\<close> ends by showing the welcome message.
\<close>

definition blank_app :: app where
  "blank_app =
     \<lparr>user_input = [], chat_display = \<lparr>inserted = [], widget_state = ''disabled''\<rparr>,
      chat_history_ids = None, max_history_length = 1024\<rparr>"

definition init_app :: app where
  "init_app =
     (case update_chat ''AI'' ''Hello! How can I help you today?'' blank_app of
        Inr st \<Rightarrow> st | Inl (e, st) \<Rightarrow> st)"

text \<open>
  A session: for each turn the user leaves some text in the entry and \<open>send_message\<close> runs
  on it. An exception that leaves \<open>send_message\<close> ends the run. \<open>state_of\<close> is the
  state of the application at the end, however the run ended.
\<close>

fun run_session :: "backend \<Rightarrow> string list \<Rightarrow> app \<Rightarrow> (error \<times> app) + app" where
  "run_session be [] st = Inr st"
| "run_session be (txt # rest) st =
     (case send_message be (st\<lparr>user_input := txt\<rparr>) of
        Inl (e, st') \<Rightarrow> Inl (e, st')
      | Inr st' \<Rightarrow> run_session be rest st')"

definition state_of :: "(error \<times> app) + app \<Rightarrow> app" where
  "state_of r = (case r of Inl (e, st) \<Rightarrow> st | Inr st \<Rightarrow> st)"

text \<open>
  A backend that raises nothing but instances of \<open>Exception\<close>.
\<close>

definition raises_only_exceptions :: "backend \<Rightarrow> bool" where
  "raises_only_exceptions be =
     ((\<forall>s e. encode be s = Inl e \<longrightarrow> is_Exception e)
      \<and> (\<forall>i kw e. generate be i kw = Inl e \<longrightarrow> is_Exception e)
      \<and> (\<forall>t skip e. decode be t skip = Inl e \<longrightarrow> is_Exception e))"

text \<open>The number of tokens held in the context; no context yet counts as none.\<close>

definition history_length :: "app \<Rightarrow> nat" where
  "history_length st = (case chat_history_ids st of None \<Rightarrow> 0 | Some h \<Rightarrow> length h)"

section \<open>Sample backends\<close>

text \<open>
  Small concrete backends on which the definitions can be run. The sample tokenizer
  encodes a text as its length followed by the end-of-text id 50256; the sample model
  appends three tokens to an input of at most eight tokens and fails on a longer one.
\<close>

definition sample_word :: "int \<Rightarrow> string" where
  "sample_word x = (if x = 7 then ''hello'' else if x = 8 then '' there'' else ''?'')"

definition sample_backend :: backend where
  "sample_backend =
     \<lparr>encode = (\<lambda>s. Inr [int (length s), 50256]),
      eos_token = ''<|endoftext|>'',
      eos_token_id = 50256,
      generate = (\<lambda>i kw. if 8 < length i then Inl (External ''out of memory'')
                            else Inr (i @ [7, 8, 50256])),
      decode = (\<lambda>t skip. Inr (concat (map sample_word
                                (if skip then filter (\<lambda>x. x \<noteq> 50256) t else t))))\<rparr>"

definition bad_encode_backend :: backend where
  "bad_encode_backend = sample_backend\<lparr>encode := (\<lambda>s. Inl (External ''bad text''))\<rparr>"

definition bad_generate_backend :: backend where
  "bad_generate_backend = sample_backend\<lparr>generate := (\<lambda>i kw. Inl (External ''boom''))\<rparr>"

definition bad_decode_backend :: backend where
  "bad_decode_backend = sample_backend\<lparr>decode := (\<lambda>t skip. Inl (External ''bad ids''))\<rparr>"

definition long_backend :: backend where
  "long_backend =
     sample_backend\<lparr>generate := (\<lambda>i kw. Inr (i @ replicate 1030 7)),
                    decode := (\<lambda>t skip. Inr ''la la'')\<rparr>"

text \<open>A model that answers an input of more than two tokens with no token at all.\<close>

definition forgetful_backend :: backend where
  "forgetful_backend =
     sample_backend\<lparr>generate := (\<lambda>i kw. if length i \<le> 2 then Inr (i @ [7, 8, 50256])
                                         else Inr [])\<rparr>"

definition sample_kwargs :: gen_kwargs where
  "sample_kwargs =
     \<lparr>max_length = 1024, pad_token_id = 50256, temperature = 7 / 10,
      repetition_penalty = 12 / 10\<rparr>"

section \<open>Basic facts\<close>

lemma slice_from_neg:
  "s < 0 \<Longrightarrow> slice_from s xs = drop (length xs - nat (- s)) xs"
proof -
  assume neg: "s < 0"
  have "nat (max (int (length xs) + s) 0) = length xs - nat (- s)"
    using neg by linarith
  with neg show ?thesis
    by (simp add: slice_from_def Let_def)
qed

lemma slice_from_nonneg:
  "0 \<le> s \<Longrightarrow> slice_from s xs = drop (nat s) xs"
  by (simp add: slice_from_def Let_def min_def)

lemma slice_from_length_append [simp]:
  "slice_from (int (length xs)) (xs @ ys) = ys"
  by (simp add: slice_from_nonneg)

lemma enforce_budget_keeps_ceil:
  assumes "0 < m" and "m < int (length ids)"
  shows "enforce_budget m ids = drop (length ids - nat ((m + 1) div 2)) ids"
proof -
  have neg: "(- m) div 2 < 0" using assms(1) by linarith
  have "nat (- ((- m) div 2)) = nat ((m + 1) div 2)" by linarith
  with neg assms(2) show ?thesis
    by (simp add: enforce_budget_def slice_from_neg)
qed

lemma enforce_budget_small:
  "int (length ids) \<le> m \<Longrightarrow> enforce_budget m ids = ids"
  by (simp add: enforce_budget_def)

lemma length_enforce_budget_le:
  assumes "0 < m"
  shows "int (length (enforce_budget m ids)) \<le> m"
proof (cases "m < int (length ids)")
  case True
  then show ?thesis
    using assms by (simp add: enforce_budget_keeps_ceil)
next
  case False
  then show ?thesis by (simp add: enforce_budget_small)
qed

lemma enforce_budget_nonempty:
  assumes "0 < m" and "ids \<noteq> []"
  shows "enforce_budget m ids \<noteq> []"
proof (cases "m < int (length ids)")
  case True
  have "0 < nat ((m + 1) div 2)" using assms(1) by linarith
  moreover have "0 < length ids" using assms(2) by simp
  ultimately have "length ids - nat ((m + 1) div 2) < length ids" by linarith
  then show ?thesis
    using True assms(1) by (simp add: enforce_budget_keeps_ceil)
next
  case False
  then show ?thesis using assms(2) by (simp add: enforce_budget_small)
qed

lemma map_of_tags:
  "map_of tags sender =
     (if sender = ''You'' then Some (''you'', ''#2c3e50'')
      else if sender = ''AI'' then Some (''ai'', ''#2980b9'')
      else if sender = ''System'' then Some (''sys'', ''#e74c3c'')
      else None)"
  by (simp add: tags_def)

lemma update_chat_tagged:
  assumes "map_of tags sender = Some (tag, colour)"
  shows "update_chat sender message st =
           Inr (st\<lparr>chat_display := (chat_display st)
                  \<lparr>inserted := inserted (chat_display st)
                                 @ [(sender @ '': '', tag), (message @ newlines, ''msg'')],
                   widget_state := ''disabled''\<rparr>\<rparr>)"
  using assms by (simp add: update_chat_def Let_def)

lemma update_chat_You:
  "update_chat ''You'' message st =
     Inr (st\<lparr>chat_display := (chat_display st)
            \<lparr>inserted := inserted (chat_display st)
                           @ [(''You: '', ''you''), (message @ newlines, ''msg'')],
             widget_state := ''disabled''\<rparr>\<rparr>)"
  using update_chat_tagged [of "''You''" "''you''" "''#2c3e50''" message st]
  by (simp add: map_of_tags)

lemma update_chat_AI:
  "update_chat ''AI'' message st =
     Inr (st\<lparr>chat_display := (chat_display st)
            \<lparr>inserted := inserted (chat_display st)
                           @ [(''AI: '', ''ai''), (message @ newlines, ''msg'')],
             widget_state := ''disabled''\<rparr>\<rparr>)"
  using update_chat_tagged [of "''AI''" "''ai''" "''#2980b9''" message st]
  by (simp add: map_of_tags)

lemma update_chat_System:
  "update_chat ''System'' message st =
     Inr (st\<lparr>chat_display := (chat_display st)
            \<lparr>inserted := inserted (chat_display st)
                           @ [(''System: '', ''sys''), (message @ newlines, ''msg'')],
             widget_state := ''disabled''\<rparr>\<rparr>)"
  using update_chat_tagged [of "''System''" "''sys''" "''#e74c3c''" message st]
  by (simp add: map_of_tags)

lemmas update_chat_known = update_chat_You update_chat_AI update_chat_System

lemma send_message_blank:
  "strip (user_input st) = [] \<Longrightarrow> send_message be st = Inr st"
  by (simp add: send_message_def)

text \<open>
  The ways a turn on a message that is not blank can end, by what the backend answers:
  a failure in encoding, in generation or in decoding, or a reply. A failure that is an
  instance of \<open>Exception\<close> is reported and the call returns; any other leaves the call
  after the echo.
\<close>

lemma send_message_encode_fails:
  assumes "strip (user_input st) = user_msg" and "user_msg \<noteq> []"
    and "encode be (user_msg @ eos_token be) = Inl e"
  shows "send_message be st =
           (if is_Exception e
            then Inr (st\<lparr>user_input := [],
                  chat_display := (chat_display st)
                    \<lparr>inserted := inserted (chat_display st)
                       @ [(''You: '', ''you''), (user_msg @ newlines, ''msg''),
                          (''System: '', ''sys''),
                          ((''Error: '' @ str_error e) @ newlines, ''msg'')],
                     widget_state := ''disabled''\<rparr>\<rparr>)
            else Inl (e, st\<lparr>user_input := [],
                  chat_display := (chat_display st)
                    \<lparr>inserted := inserted (chat_display st)
                       @ [(''You: '', ''you''), (user_msg @ newlines, ''msg'')],
                     widget_state := ''disabled''\<rparr>\<rparr>))"
  using assms
  by (simp add: send_message_def try_block_def update_chat_known Let_def)

lemma send_message_generate_fails:
  assumes "strip (user_input st) = user_msg" and "user_msg \<noteq> []"
    and "encode be (user_msg @ eos_token be) = Inr new_input"
    and "generate be (input_ids_of (chat_history_ids st) new_input) (generate_kwargs be st)
           = Inl e"
  shows "send_message be st =
           (if is_Exception e
            then Inr (st\<lparr>user_input := [],
                  chat_display := (chat_display st)
                    \<lparr>inserted := inserted (chat_display st)
                       @ [(''You: '', ''you''), (user_msg @ newlines, ''msg''),
                          (''System: '', ''sys''),
                          ((''Error: '' @ str_error e) @ newlines, ''msg'')],
                     widget_state := ''disabled''\<rparr>\<rparr>)
            else Inl (e, st\<lparr>user_input := [],
                  chat_display := (chat_display st)
                    \<lparr>inserted := inserted (chat_display st)
                       @ [(''You: '', ''you''), (user_msg @ newlines, ''msg'')],
                     widget_state := ''disabled''\<rparr>\<rparr>))"
  using assms
  by (simp add: send_message_def try_block_def update_chat_known Let_def
        generate_kwargs_def)

lemma send_message_decode_fails:
  assumes "strip (user_input st) = user_msg" and "user_msg \<noteq> []"
    and "encode be (user_msg @ eos_token be) = Inr new_input"
    and "generate be (input_ids_of (chat_history_ids st) new_input) (generate_kwargs be st)
           = Inr response"
    and "decode be (slice_from (int (length (input_ids_of (chat_history_ids st) new_input)))
                      response) True = Inl e"
  shows "send_message be st =
           (if is_Exception e
            then Inr (st\<lparr>user_input := [],
                  chat_display := (chat_display st)
                    \<lparr>inserted := inserted (chat_display st)
                       @ [(''You: '', ''you''), (user_msg @ newlines, ''msg''),
                          (''System: '', ''sys''),
                          ((''Error: '' @ str_error e) @ newlines, ''msg'')],
                     widget_state := ''disabled''\<rparr>\<rparr>)
            else Inl (e, st\<lparr>user_input := [],
                  chat_display := (chat_display st)
                    \<lparr>inserted := inserted (chat_display st)
                       @ [(''You: '', ''you''), (user_msg @ newlines, ''msg'')],
                     widget_state := ''disabled''\<rparr>\<rparr>))"
  using assms
  by (simp add: send_message_def try_block_def update_chat_known Let_def
        generate_kwargs_def)

lemma send_message_replies:
  assumes "strip (user_input st) = user_msg" and "user_msg \<noteq> []"
    and "encode be (user_msg @ eos_token be) = Inr new_input"
    and "generate be (input_ids_of (chat_history_ids st) new_input) (generate_kwargs be st)
           = Inr response"
    and "decode be (slice_from (int (length (input_ids_of (chat_history_ids st) new_input)))
                      response) True = Inr bot_response"
  shows "send_message be st =
           Inr (st\<lparr>user_input := [],
                  chat_display := (chat_display st)
                    \<lparr>inserted := inserted (chat_display st)
                       @ [(''You: '', ''you''), (user_msg @ newlines, ''msg''),
                          (''AI: '', ''ai''), (bot_response @ newlines, ''msg'')],
                     widget_state := ''disabled''\<rparr>,
                  chat_history_ids :=
                    Some (enforce_budget (max_history_length st) response)\<rparr>)"
  using assms
  by (simp add: send_message_def try_block_def update_chat_known Let_def
        generate_kwargs_def)

lemma init_app_eq:
  "init_app =
     \<lparr>user_input = [],
      chat_display =
        \<lparr>inserted = [(''AI: '', ''ai''),
                      (''Hello! How can I help you today?'' @ newlines, ''msg'')],
         widget_state = ''disabled''\<rparr>,
      chat_history_ids = None, max_history_length = 1024\<rparr>"
  by (simp add: init_app_def blank_app_def update_chat_AI)

lemma strip_hi: "strip ''hi'' = ''hi''"
  by (simp add: strip_def is_space_def)

text \<open>
  \<open>str(e)\<close> on three keys: a plain one, one with an apostrophe (Python switches to double
  quotes) and one with a line feed (Python escapes it).
\<close>

lemma str_error_samples:
  "str_error (KeyError ''Bot'') = [CHR 0x27] @ ''Bot'' @ [CHR 0x27]"
  "str_error (KeyError (''it'' @ [CHR 0x27] @ ''s''))
     = [CHR 0x22] @ ''it'' @ [CHR 0x27] @ ''s'' @ [CHR 0x22]"
  "str_error (KeyError (''a'' @ [CHR 0x0A] @ ''b''))
     = [CHR 0x27] @ ''a'' @ [CHR 0x5C] @ ''nb'' @ [CHR 0x27]"
  "str_error (KeyError [CHR 0x07]) = [CHR 0x27, CHR 0x5C] @ ''x07'' @ [CHR 0x27]"
  by code_simp+

section \<open>The truncation step\<close>

text \<open>
  Claim C1, as stated: a buffer longer than \<open>max_length\<close> is cut to its last
  \<open>max_length // 2\<close> tokens. The code slices from \<open>(-max_length) // 2\<close>, which for an odd
  limit keeps one token more: with the limit 11, twelve tokens are cut to the last six,
  not to the last five.
\<close>

theorem enforce_budget_odd_limit_counterexample:
  "int (length [1, 2, 3, 4, 5, 6, 7, 8, 9, 10, 11, 12 :: int]) > 11
   \<and> enforce_budget 11 [1, 2, 3, 4, 5, 6, 7, 8, 9, 10, 11, 12] = [7, 8, 9, 10, 11, 12]
   \<and> length (enforce_budget 11 [1, 2, 3, 4, 5, 6, 7, 8, 9, 10, 11, 12]) \<noteq> nat (11 div 2)"
  by (simp add: enforce_budget_def slice_from_def)

text \<open>
  Claim C1, amended: for a positive limit \<open>m\<close>, a buffer longer than \<open>m\<close> is cut to
  exactly its last \<open>(m + 1) div 2\<close> tokens (half the limit, rounded up); when \<open>m\<close> is even,
  as the configured 1024 is, these are exactly the last \<open>m div 2\<close> tokens. A buffer of
  length at most \<open>m\<close> is left unchanged.
\<close>

theorem enforce_budget_halving:
  "(0 < m \<and> m < int (length ids) \<longrightarrow>
      enforce_budget m ids = drop (length ids - nat ((m + 1) div 2)) ids
      \<and> length (enforce_budget m ids) = nat ((m + 1) div 2)
      \<and> (even m \<longrightarrow>
           enforce_budget m ids = drop (length ids - nat (m div 2)) ids
           \<and> length (enforce_budget m ids) = nat (m div 2)))
   \<and> (int (length ids) \<le> m \<longrightarrow> enforce_budget m ids = ids)"
proof (intro conjI impI)
  assume h: "0 < m \<and> m < int (length ids)"
  then show eq: "enforce_budget m ids = drop (length ids - nat ((m + 1) div 2)) ids"
    by (simp add: enforce_budget_keeps_ceil)
  have le: "nat ((m + 1) div 2) \<le> length ids" using h by linarith
  then show len: "length (enforce_budget m ids) = nat ((m + 1) div 2)"
    by (simp add: eq)
  assume "even m"
  then have "(m + 1) div 2 = m div 2" by presburger
  with eq len
  show "enforce_budget m ids = drop (length ids - nat (m div 2)) ids"
    and "length (enforce_budget m ids) = nat (m div 2)"
    by simp_all
next
  assume "int (length ids) \<le> m"
  then show "enforce_budget m ids = ids" by (rule enforce_budget_small)
qed

theorem enforce_budget_halving_witness:
  "enforce_budget 10 [1, 2, 3, 4, 5, 6, 7, 8, 9, 10, 11, 12] = [8, 9, 10, 11, 12]
   \<and> length (enforce_budget 10 [1, 2, 3, 4, 5, 6, 7, 8, 9, 10, 11, 12]) = 5
   \<and> enforce_budget 10 [1, 2, 3] = [1, 2, 3]"
  using enforce_budget_halving [of 10 "[1, 2, 3, 4, 5, 6, 7, 8, 9, 10, 11, 12]"]
        enforce_budget_halving [of 10 "[1, 2, 3]"]
  by simp

text \<open>
  Claim C9: the truncation step is idempotent. This holds for every limit that is not
  negative, the configured 1024 among them: after one application the length is at most
  the limit, so the second application changes nothing.
\<close>

theorem enforce_budget_idempotent:
  assumes "0 \<le> m"
  shows "enforce_budget m (enforce_budget m ids) = enforce_budget m ids"
proof (cases "m = 0")
  case True
  then show ?thesis by (simp add: enforce_budget_def slice_from_def)
next
  case False
  with assms have "0 < m" by simp
  then have "int (length (enforce_budget m ids)) \<le> m"
    by (rule length_enforce_budget_le)
  then show ?thesis by (rule enforce_budget_small)
qed

theorem enforce_budget_idempotent_witness:
  "(0::int) \<le> 1024
   \<and> enforce_budget 1024 (replicate 1030 7) = replicate 512 7
   \<and> enforce_budget 1024 (enforce_budget 1024 (replicate 1030 7)) = replicate 512 7"
proof -
  have once: "enforce_budget 1024 (replicate 1030 7) = replicate 512 7"
    by (simp add: enforce_budget_def slice_from_def)
  show ?thesis
    using enforce_budget_idempotent [of 1024 "replicate 1030 7"] once by simp
qed

section \<open>The presentation sink\<close>

text \<open>
  Claim C10: \<open>update_chat\<close> shows a message exactly when the sender label is one of
  \<open>You\<close>, \<open>AI\<close> and \<open>System\<close>. For any other label the lookup raises \<open>KeyError\<close> with
  nothing inserted into the display; for these three the label and the message are
  appended.
\<close>

theorem update_chat_labels:
  "(sender \<notin> {''You'', ''AI'', ''System''} \<longrightarrow>
      update_chat sender message st =
        Inl (KeyError sender,
             st\<lparr>chat_display := (chat_display st)\<lparr>widget_state := ''normal''\<rparr>\<rparr>))
   \<and> (sender \<in> {''You'', ''AI'', ''System''} \<longrightarrow>
      (\<exists>tag. update_chat sender message st =
        Inr (st\<lparr>chat_display := (chat_display st)
               \<lparr>inserted := inserted (chat_display st)
                              @ [(sender @ '': '', tag), (message @ newlines, ''msg'')],
                widget_state := ''disabled''\<rparr>\<rparr>)))
   \<and> ((\<exists>st'. update_chat sender message st = Inr st')
        = (sender \<in> {''You'', ''AI'', ''System''}))"
proof (cases "sender \<in> {''You'', ''AI'', ''System''}")
  case True
  then obtain tag colour where "map_of tags sender = Some (tag, colour)"
    by (auto simp: map_of_tags)
  from update_chat_tagged [OF this, of message st] True show ?thesis
    by auto
next
  case False
  then have "map_of tags sender = None"
    by (simp add: map_of_tags)
  with False show ?thesis
    by (simp add: update_chat_def Let_def)
qed

theorem update_chat_labels_witness:
  "update_chat ''Bot'' ''hi'' blank_app =
     Inl (KeyError ''Bot'',
          blank_app\<lparr>chat_display := (chat_display blank_app)\<lparr>widget_state := ''normal''\<rparr>\<rparr>)
   \<and> (\<exists>st'. update_chat ''AI'' ''hi'' blank_app = Inr st')"
  using update_chat_labels [of "''Bot''" "''hi''" blank_app]
        update_chat_labels [of "''AI''" "''hi''" blank_app]
  by simp

section \<open>One turn\<close>

text \<open>
  Claim C6: when the text of the entry is empty after \<open>strip\<close>, \<open>send_message\<close> returns
  normally and leaves the whole application state as it was: the context, the display
  and the entry.
\<close>

theorem blank_input_is_noop:
  "strip (user_input st) = [] \<Longrightarrow> send_message be st = Inr st"
  by (simp add: send_message_def)

theorem blank_input_is_noop_witness:
  "strip (user_input (init_app\<lparr>user_input := ''   ''\<rparr>)) = []
   \<and> send_message sample_backend (init_app\<lparr>user_input := ''   ''\<rparr>)
       = Inr (init_app\<lparr>user_input := ''   ''\<rparr>)"
proof -
  have h: "strip (user_input (init_app\<lparr>user_input := ''   ''\<rparr>)) = []"
    by (simp add: strip_def is_space_def)
  from blank_input_is_noop [OF h, of sample_backend] h show ?thesis
    by simp
qed

text \<open>
  Claim C3, as stated: after a failed turn the only effect is the system error message.
  The code echoes the user's message before the \<open>try\<close> (line 140), so a failed turn
  shows two messages: here the model raises on the message \<open>hi\<close>, and the display ends
  with the echo under \<open>You\<close> followed by the error under \<open>System\<close>.
\<close>

theorem failed_turn_echo_counterexample:
  "send_message bad_generate_backend (init_app\<lparr>user_input := ''hi''\<rparr>) =
     Inr (init_app
           \<lparr>chat_display :=
              \<lparr>inserted = inserted (chat_display init_app)
                  @ [(''You: '', ''you''), (''hi'' @ newlines, ''msg''),
                     (''System: '', ''sys''), (''Error: boom'' @ newlines, ''msg'')],
               widget_state = ''disabled''\<rparr>\<rparr>)
   \<and> inserted (chat_display init_app)
        @ [(''You: '', ''you''), (''hi'' @ newlines, ''msg''),
           (''System: '', ''sys''), (''Error: boom'' @ newlines, ''msg'')]
      \<noteq> inserted (chat_display init_app)
        @ [(''System: '', ''sys''), (''Error: boom'' @ newlines, ''msg'')]"
proof -
  let ?st = "init_app\<lparr>user_input := ''hi''\<rparr>"
  have enc: "encode bad_generate_backend (''hi'' @ eos_token bad_generate_backend)
               = Inr [15, 50256]"
    by (simp add: bad_generate_backend_def sample_backend_def)
  have gen: "generate bad_generate_backend (input_ids_of (chat_history_ids ?st) [15, 50256])
               (generate_kwargs bad_generate_backend ?st) = Inl (External ''boom'')"
    by (simp add: bad_generate_backend_def)
  have "strip (user_input ?st) = ''hi''"
    by (simp add: strip_hi)
  from send_message_generate_fails [OF this _ enc gen] show ?thesis
    by (simp add: init_app_eq)
qed

text \<open>
  Claim C3, amended: if encoding, generation or decoding raises an instance of
  \<open>Exception\<close> during a turn on a message that is not blank, \<open>send_message\<close> still returns
  normally, the context and the length limit are what they were before the turn, and
  the display gains exactly the echo of the user's message under \<open>You\<close> followed by one
  message under \<open>System\<close>, which is \<open>Error: \<close> followed by \<open>str(e)\<close>.
\<close>

theorem failed_turn_keeps_context:
  assumes "strip (user_input st) = user_msg" and "user_msg \<noteq> []"
    and "is_Exception e"
    and "encode be (user_msg @ eos_token be) = Inl e
         \<or> (\<exists>new_input.
               encode be (user_msg @ eos_token be) = Inr new_input
               \<and> generate be (input_ids_of (chat_history_ids st) new_input)
                     (generate_kwargs be st) = Inl e)
         \<or> (\<exists>new_input response.
               encode be (user_msg @ eos_token be) = Inr new_input
               \<and> generate be (input_ids_of (chat_history_ids st) new_input)
                     (generate_kwargs be st) = Inr response
               \<and> decode be (slice_from
                     (int (length (input_ids_of (chat_history_ids st) new_input)))
                     response) True = Inl e)"
  shows "\<exists>st'. send_message be st = Inr st'
           \<and> chat_history_ids st' = chat_history_ids st
           \<and> max_history_length st' = max_history_length st
           \<and> inserted (chat_display st') =
               inserted (chat_display st)
               @ [(''You: '', ''you''), (user_msg @ newlines, ''msg''),
                  (''System: '', ''sys''),
                  ((''Error: '' @ str_error e) @ newlines, ''msg'')]"
  using assms(4)
proof (elim disjE exE conjE)
  assume "encode be (user_msg @ eos_token be) = Inl e"
  from send_message_encode_fails [OF assms(1,2) this] assms(3) show ?thesis
    by simp
next
  fix new_input
  assume "encode be (user_msg @ eos_token be) = Inr new_input"
    and "generate be (input_ids_of (chat_history_ids st) new_input)
           (generate_kwargs be st) = Inl e"
  from send_message_generate_fails [OF assms(1,2) this] assms(3) show ?thesis
    by simp
next
  fix new_input response
  assume "encode be (user_msg @ eos_token be) = Inr new_input"
    and "generate be (input_ids_of (chat_history_ids st) new_input)
           (generate_kwargs be st) = Inr response"
    and "decode be (slice_from
           (int (length (input_ids_of (chat_history_ids st) new_input)))
           response) True = Inl e"
  from send_message_decode_fails [OF assms(1,2) this] assms(3) show ?thesis
    by simp
qed

theorem failed_turn_keeps_context_witness:
  "(\<exists>st'. send_message bad_encode_backend (init_app\<lparr>user_input := ''hi''\<rparr>) = Inr st'
       \<and> chat_history_ids st' = None
       \<and> inserted (chat_display st') =
           inserted (chat_display init_app)
           @ [(''You: '', ''you''), (''hi'' @ newlines, ''msg''),
              (''System: '', ''sys''), (''Error: bad text'' @ newlines, ''msg'')])
   \<and> (\<exists>st'. send_message bad_generate_backend
               (init_app\<lparr>user_input := ''hi'', chat_history_ids := Some [1, 2]\<rparr>) = Inr st'
       \<and> chat_history_ids st' = Some [1, 2]
       \<and> inserted (chat_display st') =
           inserted (chat_display init_app)
           @ [(''You: '', ''you''), (''hi'' @ newlines, ''msg''),
              (''System: '', ''sys''), (''Error: boom'' @ newlines, ''msg'')])
   \<and> (\<exists>st'. send_message bad_decode_backend
               (init_app\<lparr>user_input := ''hi'', chat_history_ids := Some [1, 2]\<rparr>) = Inr st'
       \<and> chat_history_ids st' = Some [1, 2]
       \<and> inserted (chat_display st') =
           inserted (chat_display init_app)
           @ [(''You: '', ''you''), (''hi'' @ newlines, ''msg''),
              (''System: '', ''sys''), (''Error: bad ids'' @ newlines, ''msg'')])"
proof (intro conjI)
  let ?st0 = "init_app\<lparr>user_input := ''hi''\<rparr>"
  let ?st1 = "init_app\<lparr>user_input := ''hi'', chat_history_ids := Some [1, 2]\<rparr>"
  have s0: "strip (user_input ?st0) = ''hi''" and s1: "strip (user_input ?st1) = ''hi''"
    by (simp_all add: strip_hi)
  have ne: "''hi'' \<noteq> []" by simp
  have ex: "is_Exception (External d)" for d by simp
  have "encode bad_encode_backend (''hi'' @ eos_token bad_encode_backend)
          = Inl (External ''bad text'')"
    by (simp add: bad_encode_backend_def)
  then show "\<exists>st'. send_message bad_encode_backend ?st0 = Inr st'
       \<and> chat_history_ids st' = None
       \<and> inserted (chat_display st') =
           inserted (chat_display init_app)
           @ [(''You: '', ''you''), (''hi'' @ newlines, ''msg''),
              (''System: '', ''sys''), (''Error: bad text'' @ newlines, ''msg'')]"
    using failed_turn_keeps_context
            [of ?st0 "''hi''" "External ''bad text''" bad_encode_backend, OF s0 ne ex]
    by (auto simp: init_app_eq)
  have "encode bad_generate_backend (''hi'' @ eos_token bad_generate_backend)
          = Inr [15, 50256]
        \<and> generate bad_generate_backend (input_ids_of (chat_history_ids ?st1) [15, 50256])
            (generate_kwargs bad_generate_backend ?st1) = Inl (External ''boom'')"
    by (simp add: bad_generate_backend_def sample_backend_def)
  then show "\<exists>st'. send_message bad_generate_backend ?st1 = Inr st'
       \<and> chat_history_ids st' = Some [1, 2]
       \<and> inserted (chat_display st') =
           inserted (chat_display init_app)
           @ [(''You: '', ''you''), (''hi'' @ newlines, ''msg''),
              (''System: '', ''sys''), (''Error: boom'' @ newlines, ''msg'')]"
    using failed_turn_keeps_context
            [of ?st1 "''hi''" "External ''boom''" bad_generate_backend, OF s1 ne ex]
    by (auto simp: init_app_eq)
  have "encode bad_decode_backend (''hi'' @ eos_token bad_decode_backend)
          = Inr [15, 50256]
        \<and> generate bad_decode_backend (input_ids_of (chat_history_ids ?st1) [15, 50256])
            (generate_kwargs bad_decode_backend ?st1) = Inr [1, 2, 15, 50256, 7, 8, 50256]
        \<and> decode bad_decode_backend (slice_from
              (int (length (input_ids_of (chat_history_ids ?st1) [15, 50256])))
              [1, 2, 15, 50256, 7, 8, 50256]) True = Inl (External ''bad ids'')"
    by (simp add: bad_decode_backend_def sample_backend_def input_ids_of_def)
  then show "\<exists>st'. send_message bad_decode_backend ?st1 = Inr st'
       \<and> chat_history_ids st' = Some [1, 2]
       \<and> inserted (chat_display st') =
           inserted (chat_display init_app)
           @ [(''You: '', ''you''), (''hi'' @ newlines, ''msg''),
              (''System: '', ''sys''), (''Error: bad ids'' @ newlines, ''msg'')]"
    using failed_turn_keeps_context
            [of ?st1 "''hi''" "External ''bad ids''" bad_decode_backend, OF s1 ne ex]
    by (auto simp: init_app_eq)
qed

text \<open>
  How a turn depends on the answer of the model: with \<open>input_ids\<close> and \<open>kwargs\<close> what
  lines 149 to 160 compute, the outcome of the turn is fixed by the value of
  \<open>generate be input_ids kwargs\<close>.
\<close>

lemma send_message_generate_outcome:
  assumes "strip (user_input st) = user_msg" and "user_msg \<noteq> []"
    and "encode be (user_msg @ eos_token be) = Inr new_input"
    and "input_ids = input_ids_of (chat_history_ids st) new_input"
    and "kwargs = generate_kwargs be st"
  shows "(\<forall>response reply.
            generate be input_ids kwargs = Inr response
            \<and> decode be (slice_from (int (length input_ids)) response) True = Inr reply
            \<longrightarrow> (\<exists>st'. send_message be st = Inr st'
                   \<and> chat_history_ids st' =
                       Some (enforce_budget (max_history_length st) response)
                   \<and> inserted (chat_display st') =
                       inserted (chat_display st)
                       @ [(''You: '', ''you''), (user_msg @ newlines, ''msg''),
                          (''AI: '', ''ai''), (reply @ newlines, ''msg'')]))
         \<and> (\<forall>e. generate be input_ids kwargs = Inl e \<and> is_Exception e
            \<longrightarrow> (\<exists>st'. send_message be st = Inr st'
                   \<and> chat_history_ids st' = chat_history_ids st
                   \<and> inserted (chat_display st') =
                       inserted (chat_display st)
                       @ [(''You: '', ''you''), (user_msg @ newlines, ''msg''),
                          (''System: '', ''sys''),
                          ((''Error: '' @ str_error e) @ newlines, ''msg'')]))"
proof (intro conjI allI impI)
  fix response reply
  assume "generate be input_ids kwargs = Inr response
          \<and> decode be (slice_from (int (length input_ids)) response) True = Inr reply"
  then have gen: "generate be (input_ids_of (chat_history_ids st) new_input)
                    (generate_kwargs be st) = Inr response"
    and dec: "decode be (slice_from
                (int (length (input_ids_of (chat_history_ids st) new_input)))
                response) True = Inr reply"
    using assms(4,5) by simp_all
  from send_message_replies [OF assms(1,2,3) gen dec]
  show "\<exists>st'. send_message be st = Inr st'
          \<and> chat_history_ids st' = Some (enforce_budget (max_history_length st) response)
          \<and> inserted (chat_display st') =
              inserted (chat_display st)
              @ [(''You: '', ''you''), (user_msg @ newlines, ''msg''),
                 (''AI: '', ''ai''), (reply @ newlines, ''msg'')]"
    by simp
next
  fix e
  assume "generate be input_ids kwargs = Inl e \<and> is_Exception e"
  then have gen: "generate be (input_ids_of (chat_history_ids st) new_input)
                    (generate_kwargs be st) = Inl e"
    and ex: "is_Exception e"
    using assms(4,5) by simp_all
  from send_message_generate_fails [OF assms(1,2,3) gen] ex
  show "\<exists>st'. send_message be st = Inr st'
          \<and> chat_history_ids st' = chat_history_ids st
          \<and> inserted (chat_display st') =
              inserted (chat_display st)
              @ [(''You: '', ''you''), (user_msg @ newlines, ''msg''),
                 (''System: '', ''sys''),
                 ((''Error: '' @ str_error e) @ newlines, ''msg'')]"
    by simp
qed

text \<open>
  Claim C4: in a turn on a message that is not blank and that the tokenizer encodes as
  \<open>new_input\<close>, the model is called on \<open>new_input\<close> alone when there is no context yet, and
  on the context followed by \<open>new_input\<close> when there is one. For any backend, it is the
  value of \<open>generate\<close> at that input which the turn uses: if it is an answer (and its
  continuation decodes), that answer, truncated, becomes the context and its decoded
  continuation is shown; if it is a raised \<open>Exception\<close>, that exception is reported.
\<close>

theorem generation_input_continuity:
  assumes "strip (user_input st) = user_msg" and "user_msg \<noteq> []"
    and "encode be (user_msg @ eos_token be) = Inr new_input"
    and "chat_history_ids st = None \<and> input_ids = new_input
         \<or> (\<exists>h. chat_history_ids st = Some h \<and> input_ids = h @ new_input)"
  shows "(\<forall>response reply.
            generate be input_ids (generate_kwargs be st) = Inr response
            \<and> decode be (slice_from (int (length input_ids)) response) True = Inr reply
            \<longrightarrow> (\<exists>st'. send_message be st = Inr st'
                   \<and> chat_history_ids st' =
                       Some (enforce_budget (max_history_length st) response)
                   \<and> inserted (chat_display st') =
                       inserted (chat_display st)
                       @ [(''You: '', ''you''), (user_msg @ newlines, ''msg''),
                          (''AI: '', ''ai''), (reply @ newlines, ''msg'')]))
         \<and> (\<forall>e. generate be input_ids (generate_kwargs be st) = Inl e \<and> is_Exception e
            \<longrightarrow> (\<exists>st'. send_message be st = Inr st'
                   \<and> chat_history_ids st' = chat_history_ids st
                   \<and> inserted (chat_display st') =
                       inserted (chat_display st)
                       @ [(''You: '', ''you''), (user_msg @ newlines, ''msg''),
                          (''System: '', ''sys''),
                          ((''Error: '' @ str_error e) @ newlines, ''msg'')]))"
proof -
  from assms(4) have "input_ids = input_ids_of (chat_history_ids st) new_input"
    by (auto simp: input_ids_of_def)
  from send_message_generate_outcome [OF assms(1,2,3) this refl] show ?thesis .
qed

theorem generation_input_continuity_witness:
  "(\<exists>st'. send_message sample_backend (init_app\<lparr>user_input := ''hi''\<rparr>) = Inr st'
       \<and> chat_history_ids st' = Some [15, 50256, 7, 8, 50256]
       \<and> inserted (chat_display st') =
           inserted (chat_display init_app)
           @ [(''You: '', ''you''), (''hi'' @ newlines, ''msg''),
              (''AI: '', ''ai''), (''hello there'' @ newlines, ''msg'')])
   \<and> (\<exists>st'. send_message sample_backend
               (init_app\<lparr>user_input := ''hi'',
                         chat_history_ids := Some [15, 50256, 7, 8, 50256]\<rparr>) = Inr st'
       \<and> chat_history_ids st' = Some [15, 50256, 7, 8, 50256, 15, 50256, 7, 8, 50256]
       \<and> inserted (chat_display st') =
           inserted (chat_display init_app)
           @ [(''You: '', ''you''), (''hi'' @ newlines, ''msg''),
              (''AI: '', ''ai''), (''hello there'' @ newlines, ''msg'')])
   \<and> (\<exists>st'. send_message bad_generate_backend
               (init_app\<lparr>user_input := ''hi'',
                         chat_history_ids := Some [15, 50256, 7, 8, 50256]\<rparr>) = Inr st'
       \<and> chat_history_ids st' = Some [15, 50256, 7, 8, 50256]
       \<and> inserted (chat_display st') =
           inserted (chat_display init_app)
           @ [(''You: '', ''you''), (''hi'' @ newlines, ''msg''),
              (''System: '', ''sys''), (''Error: boom'' @ newlines, ''msg'')])"
proof (intro conjI)
  let ?st0 = "init_app\<lparr>user_input := ''hi''\<rparr>"
  let ?st1 = "init_app\<lparr>user_input := ''hi'',
                        chat_history_ids := Some [15, 50256, 7, 8, 50256]\<rparr>"
  have s0: "strip (user_input ?st0) = ''hi''" and s1: "strip (user_input ?st1) = ''hi''"
    by (simp_all add: strip_hi)
  have ne: "''hi'' \<noteq> []" by simp
  have enc: "encode sample_backend (''hi'' @ eos_token sample_backend) = Inr [15, 50256]"
    by (simp add: sample_backend_def)
  have enc': "encode bad_generate_backend (''hi'' @ eos_token bad_generate_backend)
                = Inr [15, 50256]"
    by (simp add: bad_generate_backend_def sample_backend_def)
  have in0: "chat_history_ids ?st0 = None \<and> [15, 50256] = [15, 50256]
             \<or> (\<exists>h. chat_history_ids ?st0 = Some h \<and> [15, 50256] = h @ [15, 50256])"
    by (simp add: init_app_eq)
  have in1: "chat_history_ids ?st1 = None
               \<and> [15, 50256, 7, 8, 50256, 15, 50256] = [15, 50256]
             \<or> (\<exists>h. chat_history_ids ?st1 = Some h
                   \<and> [15, 50256, 7, 8, 50256, 15, 50256] = h @ [15, 50256])"
    by simp
  have run0: "generate sample_backend [15, 50256] (generate_kwargs sample_backend ?st0)
                = Inr [15, 50256, 7, 8, 50256]
              \<and> decode sample_backend
                  (slice_from (int (length [15, 50256 :: int])) [15, 50256, 7, 8, 50256]) True
                = Inr ''hello there''"
    by (simp add: sample_backend_def sample_word_def slice_from_def)
  have run1: "generate sample_backend [15, 50256, 7, 8, 50256, 15, 50256]
                (generate_kwargs sample_backend ?st1)
                = Inr [15, 50256, 7, 8, 50256, 15, 50256, 7, 8, 50256]
              \<and> decode sample_backend
                  (slice_from (int (length [15, 50256, 7, 8, 50256, 15, 50256 :: int]))
                     [15, 50256, 7, 8, 50256, 15, 50256, 7, 8, 50256]) True
                = Inr ''hello there''"
    by (simp add: sample_backend_def sample_word_def slice_from_def)
  have run2: "generate bad_generate_backend [15, 50256, 7, 8, 50256, 15, 50256]
                (generate_kwargs bad_generate_backend ?st1) = Inl (External ''boom'')
              \<and> is_Exception (External ''boom'')"
    by (simp add: bad_generate_backend_def)
  from generation_input_continuity [OF s0 ne enc in0, THEN conjunct1, rule_format, OF run0]
  show "\<exists>st'. send_message sample_backend ?st0 = Inr st'
       \<and> chat_history_ids st' = Some [15, 50256, 7, 8, 50256]
       \<and> inserted (chat_display st') =
           inserted (chat_display init_app)
           @ [(''You: '', ''you''), (''hi'' @ newlines, ''msg''),
              (''AI: '', ''ai''), (''hello there'' @ newlines, ''msg'')]"
    by (simp add: init_app_eq enforce_budget_def)
  from generation_input_continuity [OF s1 ne enc in1, THEN conjunct1, rule_format, OF run1]
  show "\<exists>st'. send_message sample_backend ?st1 = Inr st'
       \<and> chat_history_ids st' = Some [15, 50256, 7, 8, 50256, 15, 50256, 7, 8, 50256]
       \<and> inserted (chat_display st') =
           inserted (chat_display init_app)
           @ [(''You: '', ''you''), (''hi'' @ newlines, ''msg''),
              (''AI: '', ''ai''), (''hello there'' @ newlines, ''msg'')]"
    by (simp add: init_app_eq enforce_budget_def)
  from generation_input_continuity [OF s1 ne enc' in1, THEN conjunct2, rule_format, OF run2]
  show "\<exists>st'. send_message bad_generate_backend ?st1 = Inr st'
       \<and> chat_history_ids st' = Some [15, 50256, 7, 8, 50256]
       \<and> inserted (chat_display st') =
           inserted (chat_display init_app)
           @ [(''You: '', ''you''), (''hi'' @ newlines, ''msg''),
              (''System: '', ''sys''), (''Error: boom'' @ newlines, ''msg'')]"
    by (simp add: init_app_eq)
qed

text \<open>
  Claim C5: when the model answers the generation input followed by a continuation of
  \<open>k\<close> tokens (\<open>k\<close> may be 0), the reply shown under \<open>AI\<close> is the decoding, with special
  tokens skipped, of exactly that continuation: the tokens of the answer from index
  \<open>response_start\<close> on.
\<close>

theorem reply_is_decoded_continuation:
  assumes "strip (user_input st) = user_msg" and "user_msg \<noteq> []"
    and "encode be (user_msg @ eos_token be) = Inr new_input"
    and "input_ids = input_ids_of (chat_history_ids st) new_input"
    and "generate be input_ids (generate_kwargs be st) = Inr (input_ids @ continuation)"
    and "decode be continuation True = Inr reply"
  shows "slice_from (int (length input_ids)) (input_ids @ continuation) = continuation
         \<and> (\<exists>st'. send_message be st = Inr st'
               \<and> inserted (chat_display st') =
                   inserted (chat_display st)
                   @ [(''You: '', ''you''), (user_msg @ newlines, ''msg''),
                      (''AI: '', ''ai''), (reply @ newlines, ''msg'')])"
proof
  show cut: "slice_from (int (length input_ids)) (input_ids @ continuation) = continuation"
    by simp
  have gen: "generate be (input_ids_of (chat_history_ids st) new_input)
               (generate_kwargs be st) = Inr (input_ids @ continuation)"
    using assms(4,5) by simp
  have dec: "decode be (slice_from
               (int (length (input_ids_of (chat_history_ids st) new_input)))
               (input_ids @ continuation)) True = Inr reply"
    using assms(4,6) cut by simp
  from send_message_replies [OF assms(1,2,3) gen dec]
  show "\<exists>st'. send_message be st = Inr st'
          \<and> inserted (chat_display st') =
              inserted (chat_display st)
              @ [(''You: '', ''you''), (user_msg @ newlines, ''msg''),
                 (''AI: '', ''ai''), (reply @ newlines, ''msg'')]"
    by simp
qed

theorem reply_is_decoded_continuation_witness:
  "\<exists>st'. send_message sample_backend (init_app\<lparr>user_input := ''hi''\<rparr>) = Inr st'
     \<and> inserted (chat_display st') =
         inserted (chat_display init_app)
         @ [(''You: '', ''you''), (''hi'' @ newlines, ''msg''),
            (''AI: '', ''ai''), (''hello there'' @ newlines, ''msg'')]"
proof -
  let ?st0 = "init_app\<lparr>user_input := ''hi''\<rparr>"
  have s0: "strip (user_input ?st0) = ''hi''"
    by (simp add: strip_hi)
  have ne: "''hi'' \<noteq> []" by simp
  have enc: "encode sample_backend (''hi'' @ eos_token sample_backend) = Inr [15, 50256]"
    by (simp add: sample_backend_def)
  have inp: "[15, 50256] = input_ids_of (chat_history_ids ?st0) [15, 50256]"
    by (simp add: input_ids_of_def init_app_eq)
  have gen: "generate sample_backend [15, 50256] (generate_kwargs sample_backend ?st0)
               = Inr ([15, 50256] @ [7, 8, 50256])"
    by (simp add: sample_backend_def)
  have dec: "decode sample_backend [7, 8, 50256] True = Inr ''hello there''"
    by (simp add: sample_backend_def sample_word_def)
  from reply_is_decoded_continuation [OF s0 ne enc inp gen dec] show ?thesis
    by simp
qed

section \<open>Sessions of several turns\<close>

text \<open>
  What one call of \<open>send_message\<close> can do to the fields that outlive the turn, whether it
  returns or an exception leaves it: it never changes the length limit, and it either
  keeps the context or replaces it by the truncated answer of the model.
\<close>

lemma send_message_step:
  "max_history_length (state_of (send_message be st)) = max_history_length st
   \<and> (chat_history_ids (state_of (send_message be st)) = chat_history_ids st
      \<or> (\<exists>new_input response.
            generate be (input_ids_of (chat_history_ids st) new_input)
              (generate_kwargs be st) = Inr response
            \<and> chat_history_ids (state_of (send_message be st)) =
                Some (enforce_budget (max_history_length st) response)))"
proof (cases "strip (user_input st) = []")
  case True
  then show ?thesis by (simp add: send_message_blank state_of_def)
next
  case False
  show ?thesis
  proof (cases "encode be (strip (user_input st) @ eos_token be)")
    case (Inl e)
    from send_message_encode_fails [OF refl False Inl] show ?thesis
      by (simp add: state_of_def)
  next
    case enc: (Inr new_input)
    show ?thesis
    proof (cases "generate be (input_ids_of (chat_history_ids st) new_input)
                    (generate_kwargs be st)")
      case (Inl e)
      from send_message_generate_fails [OF refl False enc Inl] show ?thesis
        by (simp add: state_of_def)
    next
      case gen: (Inr response)
      show ?thesis
      proof (cases "decode be (slice_from
                      (int (length (input_ids_of (chat_history_ids st) new_input)))
                      response) True")
        case (Inl e)
        from send_message_decode_fails [OF refl False enc gen Inl] show ?thesis
          by (simp add: state_of_def)
      next
        case dec: (Inr bot_response)
        have "\<exists>ni r. generate be (input_ids_of (chat_history_ids st) ni)
                 (generate_kwargs be st) = Inr r
               \<and> enforce_budget (max_history_length st) response =
                   enforce_budget (max_history_length st) r"
          using gen by (intro exI [of _ new_input] exI [of _ response]) simp
        with send_message_replies [OF refl False enc gen dec] show ?thesis
          by (simp add: state_of_def)
      qed
    qed
  qed
qed

lemma send_message_returns:
  assumes "raises_only_exceptions be"
  shows "\<exists>st'. send_message be st = Inr st'"
proof (cases "strip (user_input st) = []")
  case True
  then show ?thesis by (simp add: send_message_blank)
next
  case False
  show ?thesis
  proof (cases "encode be (strip (user_input st) @ eos_token be)")
    case (Inl e)
    with assms have "is_Exception e" by (auto simp: raises_only_exceptions_def)
    with send_message_encode_fails [OF refl False Inl] show ?thesis by simp
  next
    case enc: (Inr new_input)
    show ?thesis
    proof (cases "generate be (input_ids_of (chat_history_ids st) new_input)
                    (generate_kwargs be st)")
      case (Inl e)
      with assms have "is_Exception e" by (auto simp: raises_only_exceptions_def)
      with send_message_generate_fails [OF refl False enc Inl] show ?thesis by simp
    next
      case gen: (Inr response)
      show ?thesis
      proof (cases "decode be (slice_from
                      (int (length (input_ids_of (chat_history_ids st) new_input)))
                      response) True")
        case (Inl e)
        with assms have "is_Exception e" by (auto simp: raises_only_exceptions_def)
        with send_message_decode_fails [OF refl False enc gen Inl] show ?thesis by simp
      next
        case dec: (Inr bot_response)
        from send_message_replies [OF refl False enc gen dec] show ?thesis by simp
      qed
    qed
  qed
qed

lemma state_of_run_session_Cons:
  "state_of (run_session be (typed # rest) st) =
     (case send_message be (st\<lparr>user_input := typed\<rparr>) of
        Inl (e, st') \<Rightarrow> st'
      | Inr st' \<Rightarrow> state_of (run_session be rest st'))"
  by (simp add: state_of_def split: sum.splits prod.splits)

text \<open>
  An invariant of the context and the length limit that every call of \<open>send_message\<close>
  keeps holds at the end of every session.
\<close>

lemma run_session_invariant:
  assumes step: "\<And>st typed. P st \<Longrightarrow>
                   P (state_of (send_message be (st\<lparr>user_input := typed\<rparr>)))"
    and "P st"
  shows "P (state_of (run_session be inputs st))"
  using assms(2)
proof (induction inputs arbitrary: st)
  case Nil
  then show ?case by (simp add: state_of_def)
next
  case (Cons typed rest)
  from step [OF Cons.prems, of typed]
  have inv: "P (state_of (send_message be (st\<lparr>user_input := typed\<rparr>)))" .
  show ?case
  proof (cases "send_message be (st\<lparr>user_input := typed\<rparr>)")
    case (Inl failure)
    with inv show ?thesis
      by (cases failure) (simp add: state_of_run_session_Cons state_of_def)
  next
    case (Inr st1)
    with inv have "P st1" by (simp add: state_of_def)
    from Cons.IH [OF this] Inr show ?thesis
      by (simp add: state_of_run_session_Cons)
  qed
qed

lemma run_session_returns:
  assumes "raises_only_exceptions be"
  shows "\<exists>st'. run_session be inputs st = Inr st'"
proof (induction inputs arbitrary: st)
  case Nil
  show ?case by simp
next
  case (Cons typed rest)
  from send_message_returns [OF assms, of "st\<lparr>user_input := typed\<rparr>"] obtain st1 where
    "send_message be (st\<lparr>user_input := typed\<rparr>) = Inr st1" ..
  with Cons.IH [of st1] show ?case by simp
qed

lemma send_message_budget:
  assumes "max_history_length st = 1024 \<and> history_length st \<le> 1024"
  shows "max_history_length (state_of (send_message be (st\<lparr>user_input := typed\<rparr>))) = 1024
         \<and> history_length (state_of (send_message be (st\<lparr>user_input := typed\<rparr>))) \<le> 1024"
proof -
  let ?st' = "state_of (send_message be (st\<lparr>user_input := typed\<rparr>))"
  from send_message_step [of be "st\<lparr>user_input := typed\<rparr>"]
  have lim: "max_history_length ?st' = max_history_length st"
    and ctx: "chat_history_ids ?st' = chat_history_ids st
        \<or> (\<exists>response. chat_history_ids ?st' =
              Some (enforce_budget (max_history_length st) response))"
    by auto
  from ctx have "history_length ?st' \<le> 1024"
  proof
    assume "chat_history_ids ?st' = chat_history_ids st"
    with assms show ?thesis by (simp add: history_length_def)
  next
    assume "\<exists>response. chat_history_ids ?st' =
              Some (enforce_budget (max_history_length st) response)"
    then obtain response where
      "chat_history_ids ?st' = Some (enforce_budget 1024 response)"
      using assms by auto
    moreover have "int (length (enforce_budget 1024 response)) \<le> 1024"
      by (rule length_enforce_budget_le) simp
    ultimately show ?thesis by (simp add: history_length_def)
  qed
  with lim assms show ?thesis by simp
qed

lemma enforce_budget_long:
  "enforce_budget 1024 ([15, 50256] @ replicate 1030 7) = replicate 512 7"
  by (simp add: enforce_budget_def slice_from_def)

text \<open>
  Claim C2: whatever the user types in whatever number of turns, starting from the
  state after \<open>__init__\<close> (no context), after every turn the context holds at most 1024
  tokens. This needs no assumption on the model: an answer longer than 1024 tokens is
  cut to its last 512. It holds as well in the state in which an exception that is not
  an \<open>Exception\<close> leaves a turn; and when the backend raises nothing but instances of
  \<open>Exception\<close>, every turn returns.
\<close>

theorem budget_invariant:
  "max_history_length (state_of (run_session be inputs init_app)) = 1024
   \<and> history_length (state_of (run_session be inputs init_app)) \<le> 1024
   \<and> (raises_only_exceptions be \<longrightarrow>
        (\<exists>st. run_session be inputs init_app = Inr st
           \<and> max_history_length st = 1024 \<and> history_length st \<le> 1024))"
proof -
  have start: "max_history_length init_app = 1024 \<and> history_length init_app \<le> 1024"
    by (simp add: init_app_eq history_length_def)
  have inv: "max_history_length (state_of (run_session be inputs init_app)) = 1024
             \<and> history_length (state_of (run_session be inputs init_app)) \<le> 1024"
    by (rule run_session_invariant
          [where P = "\<lambda>st. max_history_length st = 1024 \<and> history_length st \<le> 1024"],
        rule send_message_budget, assumption, rule start)
  have "\<exists>st. run_session be inputs init_app = Inr st
          \<and> max_history_length st = 1024 \<and> history_length st \<le> 1024"
    if "raises_only_exceptions be"
  proof -
    from run_session_returns [OF that] obtain st where
      run: "run_session be inputs init_app = Inr st" ..
    with inv show ?thesis by (simp add: state_of_def)
  qed
  with inv show ?thesis by simp
qed

theorem budget_invariant_witness:
  "\<exists>st. run_session long_backend [''hi''] init_app = Inr st
     \<and> chat_history_ids st = Some (replicate 512 7)
     \<and> history_length st \<le> 1024"
proof -
  let ?st0 = "init_app\<lparr>user_input := ''hi''\<rparr>"
  have "raises_only_exceptions long_backend"
    by (simp add: raises_only_exceptions_def long_backend_def sample_backend_def)
  with budget_invariant [of long_backend "[''hi'']"] obtain st where
    run: "run_session long_backend [''hi''] init_app = Inr st"
    and le: "history_length st \<le> 1024"
    by blast
  have s0: "strip (user_input ?st0) = ''hi''" by (simp add: strip_hi)
  have ne: "''hi'' \<noteq> []" by simp
  have enc: "encode long_backend (''hi'' @ eos_token long_backend) = Inr [15, 50256]"
    by (simp add: long_backend_def sample_backend_def)
  have gen: "generate long_backend (input_ids_of (chat_history_ids ?st0) [15, 50256])
               (generate_kwargs long_backend ?st0) = Inr ([15, 50256] @ replicate 1030 7)"
    by (simp add: long_backend_def input_ids_of_def init_app_eq)
  have dec: "decode long_backend (slice_from
               (int (length (input_ids_of (chat_history_ids ?st0) [15, 50256])))
               ([15, 50256] @ replicate 1030 7)) True = Inr ''la la''"
    by (simp add: long_backend_def)
  have lim: "max_history_length ?st0 = 1024" by (simp add: init_app_eq)
  have "\<exists>st1. send_message long_backend ?st0 = Inr st1
          \<and> chat_history_ids st1 = Some (replicate 512 7)"
    using send_message_replies [OF s0 ne enc gen dec] lim enforce_budget_long by simp
  with run have "chat_history_ids st = Some (replicate 512 7)" by auto
  with run le show ?thesis by blast
qed

lemma sample_first_turn:
  "send_message sample_backend (init_app\<lparr>user_input := ''hi''\<rparr>) =
     Inr (init_app
           \<lparr>chat_display :=
              \<lparr>inserted = inserted (chat_display init_app)
                  @ [(''You: '', ''you''), (''hi'' @ newlines, ''msg''),
                     (''AI: '', ''ai''), (''hello there'' @ newlines, ''msg'')],
               widget_state = ''disabled''\<rparr>,
            chat_history_ids := Some [15, 50256, 7, 8, 50256]\<rparr>)"
proof -
  let ?st0 = "init_app\<lparr>user_input := ''hi''\<rparr>"
  have s0: "strip (user_input ?st0) = ''hi''" by (simp add: strip_hi)
  have ne: "''hi'' \<noteq> []" by simp
  have enc: "encode sample_backend (''hi'' @ eos_token sample_backend) = Inr [15, 50256]"
    by (simp add: sample_backend_def)
  have gen: "generate sample_backend (input_ids_of (chat_history_ids ?st0) [15, 50256])
               (generate_kwargs sample_backend ?st0) = Inr [15, 50256, 7, 8, 50256]"
    by (simp add: sample_backend_def input_ids_of_def init_app_eq)
  have dec: "decode sample_backend (slice_from
               (int (length (input_ids_of (chat_history_ids ?st0) [15, 50256])))
               [15, 50256, 7, 8, 50256]) True = Inr ''hello there''"
    by (simp add: sample_backend_def sample_word_def slice_from_def input_ids_of_def
          init_app_eq)
  from send_message_replies [OF s0 ne enc gen dec] show ?thesis
    by (simp add: init_app_eq enforce_budget_def)
qed

lemma forgetful_first_turn:
  "send_message forgetful_backend (init_app\<lparr>user_input := ''hi''\<rparr>) =
     Inr (init_app
           \<lparr>chat_display :=
              \<lparr>inserted = inserted (chat_display init_app)
                  @ [(''You: '', ''you''), (''hi'' @ newlines, ''msg''),
                     (''AI: '', ''ai''), (''hello there'' @ newlines, ''msg'')],
               widget_state = ''disabled''\<rparr>,
            chat_history_ids := Some [15, 50256, 7, 8, 50256]\<rparr>)"
proof -
  let ?st0 = "init_app\<lparr>user_input := ''hi''\<rparr>"
  have s0: "strip (user_input ?st0) = ''hi''" by (simp add: strip_hi)
  have ne: "''hi'' \<noteq> []" by simp
  have enc: "encode forgetful_backend (''hi'' @ eos_token forgetful_backend)
               = Inr [15, 50256]"
    by (simp add: forgetful_backend_def sample_backend_def)
  have gen: "generate forgetful_backend (input_ids_of (chat_history_ids ?st0) [15, 50256])
               (generate_kwargs forgetful_backend ?st0) = Inr [15, 50256, 7, 8, 50256]"
    by (simp add: forgetful_backend_def input_ids_of_def init_app_eq)
  have dec: "decode forgetful_backend (slice_from
               (int (length (input_ids_of (chat_history_ids ?st0) [15, 50256])))
               [15, 50256, 7, 8, 50256]) True = Inr ''hello there''"
    by (simp add: forgetful_backend_def sample_backend_def sample_word_def slice_from_def
          input_ids_of_def init_app_eq)
  from send_message_replies [OF s0 ne enc gen dec] show ?thesis
    by (simp add: init_app_eq enforce_budget_def)
qed

lemma forgetful_second_turn:
  assumes "user_input st = ''hi''"
    and "chat_history_ids st = Some [15, 50256, 7, 8, 50256]"
    and "max_history_length st = 1024"
  shows "send_message forgetful_backend st =
     Inr (st\<lparr>user_input := [],
            chat_display := (chat_display st)
              \<lparr>inserted := inserted (chat_display st)
                  @ [(''You: '', ''you''), (''hi'' @ newlines, ''msg''),
                     (''AI: '', ''ai''), (newlines, ''msg'')],
               widget_state := ''disabled''\<rparr>,
            chat_history_ids := Some []\<rparr>)"
proof -
  have s1: "strip (user_input st) = ''hi''" by (simp add: assms(1) strip_hi)
  have ne: "''hi'' \<noteq> []" by simp
  have enc: "encode forgetful_backend (''hi'' @ eos_token forgetful_backend)
               = Inr [15, 50256]"
    by (simp add: forgetful_backend_def sample_backend_def)
  have gen: "generate forgetful_backend (input_ids_of (chat_history_ids st) [15, 50256])
               (generate_kwargs forgetful_backend st) = Inr []"
    by (simp add: forgetful_backend_def input_ids_of_def assms(2))
  have dec: "decode forgetful_backend (slice_from
               (int (length (input_ids_of (chat_history_ids st) [15, 50256])))
               []) True = Inr []"
    by (simp add: forgetful_backend_def sample_backend_def slice_from_def)
  from send_message_replies [OF s1 ne enc gen dec] show ?thesis
    by (simp add: assms(3) enforce_budget_def)
qed

text \<open>
  Claim C7, as stated: once the context holds a token, no later turn empties it. The code
  commits whatever the model returns (line 171), so a model that answers with no token
  empties the context in a turn that succeeds: in this session the first turn leaves
  five tokens in the context, and the second turn, which shows a reply under \<open>AI\<close> and
  raises nothing, leaves none.
\<close>

theorem active_emptied_counterexample:
  "chat_history_ids (state_of (run_session forgetful_backend [''hi''] init_app))
     = Some [15, 50256, 7, 8, 50256]
   \<and> run_session forgetful_backend [''hi'', ''hi''] init_app =
       Inr (init_app
             \<lparr>chat_display :=
                \<lparr>inserted = inserted (chat_display init_app)
                    @ [(''You: '', ''you''), (''hi'' @ newlines, ''msg''),
                       (''AI: '', ''ai''), (''hello there'' @ newlines, ''msg''),
                       (''You: '', ''you''), (''hi'' @ newlines, ''msg''),
                       (''AI: '', ''ai''), (newlines, ''msg'')],
                 widget_state = ''disabled''\<rparr>,
              chat_history_ids := Some []\<rparr>)"
proof
  let ?st1 = "init_app
           \<lparr>chat_display :=
              \<lparr>inserted = inserted (chat_display init_app)
                  @ [(''You: '', ''you''), (''hi'' @ newlines, ''msg''),
                     (''AI: '', ''ai''), (''hello there'' @ newlines, ''msg'')],
               widget_state = ''disabled''\<rparr>,
            chat_history_ids := Some [15, 50256, 7, 8, 50256]\<rparr>"
  let ?typed = "?st1\<lparr>user_input := ''hi''\<rparr>"
  let ?st2 = "?typed\<lparr>user_input := [],
            chat_display := (chat_display ?typed)
              \<lparr>inserted := inserted (chat_display ?typed)
                  @ [(''You: '', ''you''), (''hi'' @ newlines, ''msg''),
                     (''AI: '', ''ai''), (newlines, ''msg'')],
               widget_state := ''disabled''\<rparr>,
            chat_history_ids := Some []\<rparr>"
  have t1: "send_message forgetful_backend (init_app\<lparr>user_input := ''hi''\<rparr>) = Inr ?st1"
    by (rule forgetful_first_turn)
  have t2: "send_message forgetful_backend ?typed = Inr ?st2"
    by (rule forgetful_second_turn) (simp_all add: init_app_eq)
  show "chat_history_ids (state_of (run_session forgetful_backend [''hi''] init_app))
          = Some [15, 50256, 7, 8, 50256]"
    by (simp add: t1 state_of_def)
  have "run_session forgetful_backend [''hi'', ''hi''] init_app = Inr ?st2"
    by (simp only: run_session.simps t1 t2 sum.case)
  then show "run_session forgetful_backend [''hi'', ''hi''] init_app =
       Inr (init_app
             \<lparr>chat_display :=
                \<lparr>inserted = inserted (chat_display init_app)
                    @ [(''You: '', ''you''), (''hi'' @ newlines, ''msg''),
                       (''AI: '', ''ai''), (''hello there'' @ newlines, ''msg''),
                       (''You: '', ''you''), (''hi'' @ newlines, ''msg''),
                       (''AI: '', ''ai''), (newlines, ''msg'')],
                 widget_state = ''disabled''\<rparr>,
              chat_history_ids := Some []\<rparr>)"
    by (simp add: init_app_eq)
qed

lemma send_message_active:
  assumes contract: "\<forall>i kw r. generate be i kw = Inr r \<longrightarrow> length i \<le> length r"
    and inv: "max_history_length st = 1024
              \<and> (\<exists>h. chat_history_ids st = Some h \<and> h \<noteq> [])"
  shows "max_history_length (state_of (send_message be (st\<lparr>user_input := typed\<rparr>))) = 1024
         \<and> (\<exists>h. chat_history_ids (state_of (send_message be (st\<lparr>user_input := typed\<rparr>)))
                  = Some h \<and> h \<noteq> [])"
proof -
  let ?st' = "state_of (send_message be (st\<lparr>user_input := typed\<rparr>))"
  from inv obtain h where h: "chat_history_ids st = Some h" "h \<noteq> []" by blast
  from send_message_step [of be "st\<lparr>user_input := typed\<rparr>"]
  have lim: "max_history_length ?st' = max_history_length st"
    and ctx: "chat_history_ids ?st' = chat_history_ids st
        \<or> (\<exists>new_input response.
              generate be (input_ids_of (chat_history_ids st) new_input)
                (generate_kwargs be (st\<lparr>user_input := typed\<rparr>)) = Inr response
              \<and> chat_history_ids ?st' =
                  Some (enforce_budget (max_history_length st) response))"
    by simp_all
  from ctx have "\<exists>h'. chat_history_ids ?st' = Some h' \<and> h' \<noteq> []"
  proof
    assume "chat_history_ids ?st' = chat_history_ids st"
    with h show ?thesis by simp
  next
    assume "\<exists>new_input response.
              generate be (input_ids_of (chat_history_ids st) new_input)
                (generate_kwargs be (st\<lparr>user_input := typed\<rparr>)) = Inr response
              \<and> chat_history_ids ?st' =
                  Some (enforce_budget (max_history_length st) response)"
    then obtain new_input response where
      gen: "generate be (h @ new_input) (generate_kwargs be (st\<lparr>user_input := typed\<rparr>))
              = Inr response"
      and new: "chat_history_ids ?st' = Some (enforce_budget 1024 response)"
      using h(1) inv by (auto simp: input_ids_of_def)
    from contract gen have "length (h @ new_input) \<le> length response" by blast
    with h(2) have "response \<noteq> []" by auto
    then have "enforce_budget 1024 response \<noteq> []"
      by (intro enforce_budget_nonempty) simp_all
    with new show ?thesis by simp
  qed
  with lim inv show ?thesis by simp
qed

text \<open>
  Claim C7, amended: provided every answer of the model is at least as long as its
  input (the contract the program relies on and does not check), once the context holds
  at least one token it holds at least one token after any further turns, whether they
  reply, fail or are blank, and also in the state in which an exception leaves a turn.
\<close>

theorem active_stays_active:
  assumes "\<forall>i kw r. generate be i kw = Inr r \<longrightarrow> length i \<le> length r"
    and "chat_history_ids st = Some h" and "h \<noteq> []" and "max_history_length st = 1024"
  shows "\<exists>h'. chat_history_ids (state_of (run_session be inputs st)) = Some h' \<and> h' \<noteq> []"
proof -
  have start: "max_history_length st = 1024
               \<and> (\<exists>h. chat_history_ids st = Some h \<and> h \<noteq> [])"
    using assms(2,3,4) by simp
  have "max_history_length (state_of (run_session be inputs st)) = 1024
        \<and> (\<exists>h. chat_history_ids (state_of (run_session be inputs st)) = Some h \<and> h \<noteq> [])"
    by (rule run_session_invariant
          [where P = "\<lambda>st. max_history_length st = 1024
                        \<and> (\<exists>h. chat_history_ids st = Some h \<and> h \<noteq> [])"],
        rule send_message_active [OF assms(1)], assumption, rule start)
  then show ?thesis by simp
qed

theorem active_stays_active_witness:
  "\<exists>h'. chat_history_ids (state_of (run_session sample_backend [''hi'', ''  '', ''hi'']
               (init_app\<lparr>chat_history_ids := Some [15, 50256, 7, 8, 50256]\<rparr>))) = Some h'
     \<and> h' \<noteq> []"
proof -
  have contract: "\<forall>i kw r. generate sample_backend i kw = Inr r \<longrightarrow> length i \<le> length r"
    by (auto simp: sample_backend_def split: if_splits)
  show ?thesis
    by (rule active_stays_active [OF contract, of _ "[15, 50256, 7, 8, 50256]"])
       (simp_all add: init_app_eq)
qed

lemma run_session_limit:
  "max_history_length (state_of (run_session be inputs init_app)) = 1024"
proof (rule run_session_invariant [where P = "\<lambda>st. max_history_length st = 1024"])
  fix st :: app and typed
  assume "max_history_length st = 1024"
  with send_message_step [of be "st\<lparr>user_input := typed\<rparr>"]
  show "max_history_length (state_of (send_message be (st\<lparr>user_input := typed\<rparr>))) = 1024"
    by simp
next
  show "max_history_length init_app = 1024" by (simp add: init_app_eq)
qed

text \<open>
  Claim C8: in whatever state \<open>st\<close> a session started after \<open>__init__\<close> has reached, the
  call to the model in the next turn carries the keyword arguments \<open>max_length\<close> 1024,
  which is the length limit of the context in \<open>st\<close>, \<open>pad_token_id\<close> the tokenizer's
  \<open>eos_token_id\<close>, \<open>temperature\<close> 0.7 and \<open>repetition_penalty\<close> 1.2. For any backend, it
  is the value of \<open>generate\<close> at exactly these keyword arguments which the turn uses: if
  it is an answer (and its continuation decodes), that answer, cut to the limit 1024,
  becomes the context and its decoded continuation is shown; if it is a raised
  \<open>Exception\<close>, that exception is reported.
\<close>

theorem generate_kwargs_fixed:
  assumes "st = state_of (run_session be inputs init_app)"
    and "strip typed = user_msg" and "user_msg \<noteq> []"
    and "encode be (user_msg @ eos_token be) = Inr new_input"
    and "input_ids = input_ids_of (chat_history_ids st) new_input"
    and "kwargs = \<lparr>max_length = 1024, pad_token_id = eos_token_id be,
                   temperature = 7 / 10, repetition_penalty = 12 / 10\<rparr>"
  shows "max_history_length st = 1024
         \<and> (\<forall>response reply.
              generate be input_ids kwargs = Inr response
              \<and> decode be (slice_from (int (length input_ids)) response) True = Inr reply
              \<longrightarrow> (\<exists>st'. send_message be (st\<lparr>user_input := typed\<rparr>) = Inr st'
                     \<and> chat_history_ids st' = Some (enforce_budget 1024 response)
                     \<and> inserted (chat_display st') =
                         inserted (chat_display st)
                         @ [(''You: '', ''you''), (user_msg @ newlines, ''msg''),
                            (''AI: '', ''ai''), (reply @ newlines, ''msg'')]))
         \<and> (\<forall>e. generate be input_ids kwargs = Inl e \<and> is_Exception e
              \<longrightarrow> (\<exists>st'. send_message be (st\<lparr>user_input := typed\<rparr>) = Inr st'
                     \<and> chat_history_ids st' = chat_history_ids st
                     \<and> inserted (chat_display st') =
                         inserted (chat_display st)
                         @ [(''You: '', ''you''), (user_msg @ newlines, ''msg''),
                            (''System: '', ''sys''),
                            ((''Error: '' @ str_error e) @ newlines, ''msg'')]))"
proof -
  let ?st = "st\<lparr>user_input := typed\<rparr>"
  have lim: "max_history_length st = 1024"
    unfolding assms(1) by (rule run_session_limit)
  have s: "strip (user_input ?st) = user_msg"
    using assms(2) by simp
  have inp: "input_ids = input_ids_of (chat_history_ids ?st) new_input"
    using assms(5) by simp
  have kw: "kwargs = generate_kwargs be ?st"
    using assms(6) lim by (simp add: generate_kwargs_def)
  from send_message_generate_outcome [OF s assms(3,4) inp kw] lim
  show ?thesis by simp
qed

theorem generate_kwargs_fixed_witness:
  "max_history_length (state_of (run_session sample_backend [''hi''] init_app)) = 1024
   \<and> (\<exists>st'. send_message sample_backend
               ((state_of (run_session sample_backend [''hi''] init_app))
                  \<lparr>user_input := ''hi''\<rparr>) = Inr st'
        \<and> chat_history_ids st' = Some [15, 50256, 7, 8, 50256, 15, 50256, 7, 8, 50256])"
proof -
  let ?st = "state_of (run_session sample_backend [''hi''] init_app)"
  have ctx: "chat_history_ids ?st = Some [15, 50256, 7, 8, 50256]"
    by (simp add: sample_first_turn state_of_def)
  have s: "strip ''hi'' = ''hi''" by (rule strip_hi)
  have ne: "''hi'' \<noteq> []" by simp
  have enc: "encode sample_backend (''hi'' @ eos_token sample_backend) = Inr [15, 50256]"
    by (simp add: sample_backend_def)
  have inp: "[15, 50256, 7, 8, 50256, 15, 50256]
               = input_ids_of (chat_history_ids ?st) [15, 50256]"
    by (subst ctx) (simp add: input_ids_of_def)
  have kw: "sample_kwargs = \<lparr>max_length = 1024, pad_token_id = eos_token_id sample_backend,
                             temperature = 7 / 10, repetition_penalty = 12 / 10\<rparr>"
    by (simp add: sample_kwargs_def sample_backend_def)
  have run: "generate sample_backend [15, 50256, 7, 8, 50256, 15, 50256] sample_kwargs
               = Inr [15, 50256, 7, 8, 50256, 15, 50256, 7, 8, 50256]
             \<and> decode sample_backend
                 (slice_from (int (length [15, 50256, 7, 8, 50256, 15, 50256 :: int]))
                    [15, 50256, 7, 8, 50256, 15, 50256, 7, 8, 50256]) True
               = Inr ''hello there''"
    by (simp add: sample_backend_def sample_word_def slice_from_def)
  note fixed = generate_kwargs_fixed [OF refl s ne enc inp kw]
  from fixed [THEN conjunct2, THEN conjunct1, rule_format, OF run]
  have "\<exists>st'. send_message sample_backend (?st\<lparr>user_input := ''hi''\<rparr>) = Inr st'
          \<and> chat_history_ids st' = Some [15, 50256, 7, 8, 50256, 15, 50256, 7, 8, 50256]"
    by (auto simp: enforce_budget_def)
  with fixed [THEN conjunct1] show ?thesis by simp
qed

end
